theory Spec2Isabelle
  imports Complex_Main "HOL-Library.Multiset"
begin

section \<open>Data model of \<open>src/create.py\<close>\<close>

text \<open>
  Plain Python values as they occur in a template after YAML loading: \<open>None\<close>, booleans,
  unbounded integers, floats, strings, lists and dictionaries with string keys.
\<close>

datatype pyval =
    PNone
  | PBool bool
  | PInt int
  | PFloat real
  | PStr string
  | PList "pyval list"
  | PDict "(string \<times> pyval) list"

text \<open>
  An option field of a template holds a string or is null (the data model of the
  specification: option fields are named string values).
\<close>

datatype optval = ONone | OStr string

datatype error = AttributeError | TypeError | IndexError | OSError

text \<open>
  A layer is the list \<open>[from, repeats, module, args]\<close>, kept as the list the code indexes.
  The template has the five reserved keys as fields; every other key is an option field,
  kept as an association list in declared order (the keys of a dictionary are distinct).
\<close>

type_synonym layer = "pyval list"

record template =
  name :: string
  nc :: int
  scales :: "pyval list"
  backbone :: "layer list"
  head :: "layer list"
  options :: "(string \<times> optval) list"

type_synonym path = "string list"

record cfg =
  template :: template
  user :: string
  time :: string
  run_name :: string

subsection \<open>Python primitives used by the code\<close>





text \<open>Truthiness of an option value: \<open>None\<close> and the empty string are false.\<close>

fun truthy :: "optval \<Rightarrow> bool" where
  "truthy ONone = False"
| "truthy (OStr s) = (s \<noteq> [])"

fun str_of :: "optval \<Rightarrow> string" where
  "str_of (OStr s) = s"
| "str_of ONone = []"

fun py_of_opt :: "optval \<Rightarrow> pyval" where
  "py_of_opt ONone = PNone"
| "py_of_opt (OStr s) = PStr s"

text \<open>\<open>sub in s\<close> on strings: \<open>sub\<close> occurs in \<open>s\<close> as a contiguous substring.\<close>

fun str_contains :: "string \<Rightarrow> string \<Rightarrow> bool" where
  "str_contains sub [] = (sub = [])"
| "str_contains sub (c # cs) = (take (length sub) (c # cs) = sub \<or> str_contains sub cs)"

text \<open>\<open>sub in v\<close> for an option value: a membership test on \<open>None\<close> raises \<open>TypeError\<close>.\<close>

fun py_in :: "string \<Rightarrow> optval \<Rightarrow> error + bool" where
  "py_in sub ONone = Inl TypeError"
| "py_in sub (OStr s) = Inr (str_contains sub s)"

text \<open>\<open>sep.join(xs)\<close>.\<close>

fun join :: "string \<Rightarrow> string list \<Rightarrow> string" where
  "join sep [] = []"
| "join sep [x] = x"
| "join sep (x # y # ys) = x @ sep @ join sep (y # ys)"

text \<open>
  Access to the template's option fields. \<open>cfg.template.get(key)\<close> gives \<open>None\<close> for a
  missing key; attribute access \<open>cfg.template.KEY\<close> raises on a missing key (the
  configuration objects handed over by Hydra 1.3 raise \<open>ConfigAttributeError\<close>, an
  \<open>AttributeError\<close>).
\<close>

definition template_get :: "template \<Rightarrow> string \<Rightarrow> optval" where
  "template_get t key = (case map_of (options t) key of None \<Rightarrow> ONone | Some v \<Rightarrow> v)"

definition template_attr :: "template \<Rightarrow> string \<Rightarrow> error + optval" where
  "template_attr t key =
     (case map_of (options t) key of None \<Rightarrow> Inl AttributeError | Some v \<Rightarrow> Inr v)"

section \<open>The layer graph transformer: \<open>process_model\<close>\<close>

text \<open>
  The inner loop over a list-valued \<open>from\<close>: an element that is an \<open>int\<close> and at least 10
  is replaced by its successor, in place. A boolean is an \<open>int\<close> below 10, so it stays.
\<close>

fun shift_elem :: "pyval \<Rightarrow> pyval" where
  "shift_elem (PInt v) = (if v \<ge> 10 then PInt (v + 1) else PInt v)"
| "shift_elem v = v"

primrec shift_elems :: "pyval list \<Rightarrow> pyval list" where
  "shift_elems [] = []"
| "shift_elems (v # vs) = shift_elem v # shift_elems vs"

text \<open>The two tests on \<open>arg0 = layer[0]\<close>: a single \<open>int\<close>, or a non-empty list.\<close>

fun rewrite_from :: "pyval \<Rightarrow> pyval" where
  "rewrite_from (PInt n) = (if n \<ge> 10 then PInt (n + 1) else PInt n)"
| "rewrite_from (PList xs) = (if length xs > 0 then PList (shift_elems xs) else PList xs)"
| "rewrite_from v = v"

text \<open>\<open>layer[0]\<close> raises \<open>IndexError\<close> on an empty layer.\<close>

fun process_layer :: "layer \<Rightarrow> error + layer" where
  "process_layer [] = Inl IndexError"
| "process_layer (arg0 # rest) = Inr (rewrite_from arg0 # rest)"

fun process_head :: "layer list \<Rightarrow> error + layer list" where
  "process_head [] = Inr []"
| "process_head (l # ls) =
     (case process_layer l of
        Inl e \<Rightarrow> Inl e
      | Inr l' \<Rightarrow> (case process_head ls of Inl e \<Rightarrow> Inl e | Inr ls' \<Rightarrow> Inr (l' # ls')))"

definition attention_layer :: "optval \<Rightarrow> layer" where
  "attention_layer a = [PInt (- 1), PInt 1, py_of_opt a, PList []]"

definition process_model :: "cfg \<Rightarrow> error + cfg" where
  "process_model c =
     (case template_attr (template c) ''ATTENTION'' of
        Inl e \<Rightarrow> Inl e
      | Inr a \<Rightarrow>
          if truthy a then
            (case process_head (head (template c)) of
               Inl e \<Rightarrow> Inl e
             | Inr h' \<Rightarrow>
                 Inr (c\<lparr>template := (template c)
                        \<lparr>backbone := backbone (template c) @ [attention_layer a],
                         head := h'\<rparr>\<rparr>))
          else Inr c)"

section \<open>The generation entry point: \<open>main\<close>\<close>

subsection \<open>The world \<open>main\<close> acts on\<close>

text \<open>
  \<open>main\<close> prints to standard output, creates a directory and writes one file. A printed
  line is recorded by what it reports. The content of the written file is the header
  comment (its eight interpolated values) followed by the serialization of the mapping
  obtained from the template; both are kept structured. A path is its list of components.
\<close>

datatype message =
    MsgModelName string
  | MsgHeadMismatch
  | MsgAttentionMismatch
  | MsgCreated path

record header =
  h_time :: string
  h_user :: string
  h_template :: string
  h_model_name :: string
  h_downsample :: optval
  h_convolution :: optval
  h_fusion :: optval
  h_head :: optval

record yaml_file =
  header_comment :: header
  document :: template

record world =
  stdout :: "message list"
  dirs :: "path set"
  files :: "path \<rightharpoonup> yaml_file"

definition print :: "message \<Rightarrow> world \<Rightarrow> world" where
  "print m w = w\<lparr>stdout := stdout w @ [m]\<rparr>"

primrec path_prefixes :: "path \<Rightarrow> path list" where
  "path_prefixes [] = [[]]"
| "path_prefixes (c # cs) = [] # map ((#) c) (path_prefixes cs)"

text \<open>\<open>os.path.exists\<close>: the path names a directory or a file.\<close>

definition path_exists :: "world \<Rightarrow> path \<Rightarrow> bool" where
  "path_exists w p = (p \<in> dirs w \<or> files w p \<noteq> None)"

text \<open>
  \<open>os.makedirs\<close> creates the directory and every missing ancestor; it raises an \<open>OSError\<close>
  when the directory is there already or a component of the path is a regular file.
\<close>

definition makedirs :: "path \<Rightarrow> world \<Rightarrow> error + world" where
  "makedirs p w =
     (if p \<in> dirs w \<or> list_ex (\<lambda>q. files w q \<noteq> None) (path_prefixes p) then Inl OSError
      else Inr (w\<lparr>dirs := dirs w \<union> set (path_prefixes p)\<rparr>))"

text \<open>
  \<open>open(p, 'w')\<close> followed by the writes: the parent must be a directory and the path must
  not be one; whatever the file held before is replaced.
\<close>

definition open_write :: "path \<Rightarrow> yaml_file \<Rightarrow> world \<Rightarrow> error + world" where
  "open_write p f w =
     (if p \<in> dirs w \<or> butlast p \<notin> dirs w then Inl OSError
      else Inr (w\<lparr>files := (files w)(p \<mapsto> f)\<rparr>))"

subsection \<open>Name composition\<close>

definition reserved_keys :: "string list" where
  "reserved_keys = [''name'', ''nc'', ''scales'', ''backbone'', ''head'']"

definition template_keys :: "template \<Rightarrow> string list" where
  "template_keys t = reserved_keys @ map fst (options t)"

text \<open>
  \<open>used_keys\<close> is a Python \<open>set\<close> of strings. Iterating a set visits each element once, in
  an order the language leaves open (it follows the string hashes, which are salted per
  process). The order of the visit is therefore an input of the model: a list \<open>ks\<close> that
  enumerates the set.
\<close>

definition used_keys :: "template \<Rightarrow> string set" where
  "used_keys t = set (template_keys t) - set reserved_keys"

definition iterates :: "string list \<Rightarrow> template \<Rightarrow> bool" where
  "iterates ks t = (distinct ks \<and> set ks = used_keys t)"

definition model_name_of :: "string list \<Rightarrow> template \<Rightarrow> string" where
  "model_name_of ks t =
     name t @ ''-'' @
     join ''-'' (map (\<lambda>key. str_of (template_get t key))
                    (filter (\<lambda>key. truthy (template_get t key)) ks))"

subsection \<open>Output path\<close>

definition generate_dir :: "path \<Rightarrow> cfg \<Rightarrow> path" where
  "generate_dir ROOT c =
     ROOT @ [''configs'', ''model'', user c, ''generate'',
             time c @ (if run_name c \<noteq> ''create'' then ''-'' @ run_name c else [])]"

definition oc_to_dict :: "template \<Rightarrow> template" where
  "oc_to_dict t = t"

subsection \<open>\<open>main\<close>\<close>

text \<open>
  The header comment reads four option fields by attribute access, after the directory
  has been made.
\<close>

definition make_header :: "string \<Rightarrow> cfg \<Rightarrow> string \<Rightarrow> error + header" where
  "make_header now c model_name =
     (case template_attr (template c) ''DOWNSAMPLE'' of Inl e \<Rightarrow> Inl e | Inr d \<Rightarrow>
      case template_attr (template c) ''CONVOLUTION'' of Inl e \<Rightarrow> Inl e | Inr cv \<Rightarrow>
      case template_attr (template c) ''FUSION'' of Inl e \<Rightarrow> Inl e | Inr fu \<Rightarrow>
      case template_attr (template c) ''HEAD'' of Inl e \<Rightarrow> Inl e | Inr hv \<Rightarrow>
        Inr \<lparr>h_time = now, h_user = user c, h_template = name (template c),
             h_model_name = model_name, h_downsample = d, h_convolution = cv,
             h_fusion = fu, h_head = hv\<rparr>)"

text \<open>
  The part of \<open>main\<close> after the two checks. The call of \<open>process_model\<close> is commented out
  in the source, so the template is written with only its name replaced.
\<close>

definition write_model :: "path \<Rightarrow> string \<Rightarrow> string \<Rightarrow> cfg \<Rightarrow> world \<Rightarrow> (error + unit) \<times> world" where
  "write_model ROOT now model_name c0 w1 =
     (let c = c0\<lparr>template := (template c0)\<lparr>name := model_name\<rparr>\<rparr>;
          USER_GENERATE_DIR = generate_dir ROOT c
      in case (if \<not> path_exists w1 USER_GENERATE_DIR then makedirs USER_GENERATE_DIR w1
               else Inr w1) of
           Inl e \<Rightarrow> (Inl e, w1)
         | Inr w2 \<Rightarrow>
             (let yaml_path = USER_GENERATE_DIR @ [model_name @ ''.yaml''];
                  model = oc_to_dict (template c)
              in case make_header now c model_name of
                   Inl e \<Rightarrow> (Inl e, w2)
                 | Inr hc \<Rightarrow>
                     (case open_write yaml_path
                             \<lparr>header_comment = hc, document = model\<rparr> w2 of
                        Inl e \<Rightarrow> (Inl e, w2)
                      | Inr w3 \<Rightarrow> (Inr (), print (MsgCreated yaml_path) w3))))"

definition main :: "path \<Rightarrow> string \<Rightarrow> string list \<Rightarrow> cfg \<Rightarrow> world \<Rightarrow> (error + unit) \<times> world" where
  "main ROOT now ks c w0 =
     (let model_name = model_name_of ks (template c);
          w1 = print (MsgModelName model_name) w0
      in case template_attr (template c) ''HEAD'' of
           Inl e \<Rightarrow> (Inl e, w1)
         | Inr hv \<Rightarrow>
             (case py_in ''4Head'' hv of
                Inl e \<Rightarrow> (Inl e, w1)
              | Inr head_marked \<Rightarrow>
                  if str_contains ''4Head'' (name (template c)) \<noteq> head_marked
                  then (Inr (), print MsgHeadMismatch w1)
                  else
                    (case template_attr (template c) ''ATTENTION'' of
                       Inl e \<Rightarrow> (Inl e, w1)
                     | Inr a \<Rightarrow>
                         if str_contains ''attn'' (name (template c)) \<noteq> (a \<noteq> ONone)
                         then (Inr (), print MsgAttentionMismatch w1)
                         else write_model ROOT now model_name c w1)))"

section \<open>The serializer's list representer\<close>




section \<open>The specification's wording, for comparison\<close>

text \<open>
  The composed name as the specification words it: the non-empty option values joined in
  the template's declared field order.
\<close>

definition spec_declared_order_name :: "template \<Rightarrow> string" where
  "spec_declared_order_name t =
     name t @ ''-'' @ join ''-'' (map str_of (filter truthy (map snd (options t))))"





section \<open>A concrete generation request\<close>

text \<open>
  A template with a backbone of ten layers and one head layer
  \<open>[frm, 1, "Detect", [256]]\<close>, the option fields the header comment reads, and the
  \<open>HEAD\<close> and \<open>ATTENTION\<close> fields; the request of user \<open>benderick\<close> at time \<open>t23458\<close> under
  the default run name, in a world with no directory and no file.
\<close>

definition scenario_backbone :: "layer list" where
  "scenario_backbone =
     replicate 10 [PInt (- 1), PInt 1, PStr ''Conv'', PList [PInt 64, PInt 3, PInt 2]]"

definition scenario_template :: "string \<Rightarrow> pyval \<Rightarrow> optval \<Rightarrow> optval \<Rightarrow> template" where
  "scenario_template nm frm hv att =
     \<lparr>name = nm, nc = 80, scales = [PFloat 0.5, PFloat 0.25, PInt 1024],
      backbone = scenario_backbone,
      head = [[frm, PInt 1, PStr ''Detect'', PList [PInt 256]]],
      options = [(''DOWNSAMPLE'', OStr ''ADown''), (''CONVOLUTION'', OStr ''C3k2''),
                 (''FUSION'', OStr ''Concat''), (''HEAD'', hv), (''ATTENTION'', att)]\<rparr>"

definition scenario_cfg :: "template \<Rightarrow> cfg" where
  "scenario_cfg t = \<lparr>template = t, user = ''benderick'', time = ''t23458'', run_name = ''create''\<rparr>"

definition empty_world :: world where
  "empty_world = \<lparr>stdout = [], dirs = {}, files = Map.empty\<rparr>"


section \<open>Auxiliary facts\<close>

lemma shift_elems_map: "shift_elems xs = map shift_elem xs"
  by (induction xs) simp_all

lemma process_head_ok:
  "\<forall>l \<in> set ls. l \<noteq> [] \<Longrightarrow> process_head ls = Inr (map (\<lambda>l. rewrite_from (hd l) # tl l) ls)"
proof (induction ls)
  case Nil
  then show ?case by simp
next
  case (Cons l ls)
  then obtain a rest where l: "l = a # rest" by (cases l) auto
  from Cons show ?case by (simp add: l)
qed

lemma process_model_ok:
  assumes "template_attr (template c) ''ATTENTION'' = Inr a" and "truthy a"
      and "\<forall>l \<in> set (head (template c)). l \<noteq> []"
  shows "process_model c =
           Inr (c\<lparr>template := (template c)
                  \<lparr>backbone := backbone (template c) @ [attention_layer a],
                   head := map (\<lambda>l. rewrite_from (hd l) # tl l) (head (template c))\<rparr>\<rparr>)"
  using assms by (simp add: process_model_def process_head_ok)

text \<open>The substring test is the usual one: some prefix and suffix surround \<open>sub\<close>.\<close>

lemma str_contains_iff: "str_contains sub s \<longleftrightarrow> (\<exists>p q. s = p @ sub @ q)"
proof (induction s)
  case Nil
  then show ?case by auto
next
  case (Cons c cs)
  show ?case
  proof
    assume "str_contains sub (c # cs)"
    then consider "take (length sub) (c # cs) = sub" | "str_contains sub cs" by auto
    then show "\<exists>p q. c # cs = p @ sub @ q"
    proof cases
      case 1
      then have "c # cs = [] @ sub @ drop (length sub) (c # cs)"
        by (metis append_Nil append_take_drop_id)
      then show ?thesis by blast
    next
      case 2
      with Cons.IH obtain p q where "cs = p @ sub @ q" by blast
      then have "c # cs = (c # p) @ sub @ q" by simp
      then show ?thesis by blast
    qed
  next
    assume "\<exists>p q. c # cs = p @ sub @ q"
    then obtain p q where pq: "c # cs = p @ sub @ q" by blast
    show "str_contains sub (c # cs)"
    proof (cases p)
      case Nil
      with pq have "take (length sub) (c # cs) = sub" by simp
      then show ?thesis by simp
    next
      case (Cons a p')
      with pq have "cs = p' @ sub @ q" by simp
      with Cons.IH have "str_contains sub cs" by blast
      then show ?thesis by simp
    qed
  qed
qed

lemma self_in_path_prefixes: "p \<in> set (path_prefixes p)"
  by (induction p) auto

lemma length_path_prefixes: "q \<in> set (path_prefixes p) \<Longrightarrow> length q \<le> length p"
  by (induction p arbitrary: q) auto

lemma snoc_notin_path_prefixes: "p @ [x] \<notin> set (path_prefixes p)"
  using length_path_prefixes[of "p @ [x]" p] by auto

text \<open>
  A request that passes both checks, whose template has the option fields the header
  reads, on a file system where the directory can be made and the file opened: \<open>main\<close>
  returns normally, and this is the world it leaves.
\<close>

lemma main_accepted:
  assumes hd: "template_attr (template c) ''HEAD'' = Inr (OStr h)"
      and hd_ok: "str_contains ''4Head'' (name (template c)) = str_contains ''4Head'' h"
      and att: "template_attr (template c) ''ATTENTION'' = Inr a"
      and att_ok: "str_contains ''attn'' (name (template c)) = (a \<noteq> ONone)"
      and ds: "template_attr (template c) ''DOWNSAMPLE'' = Inr d"
      and cv: "template_attr (template c) ''CONVOLUTION'' = Inr v"
      and fu: "template_attr (template c) ''FUSION'' = Inr f"
      and nofile: "\<forall>q \<in> set (path_prefixes (generate_dir ROOT c)). files w q = None"
      and nodir: "generate_dir ROOT c @ [model_name_of ks (template c) @ ''.yaml''] \<notin> dirs w"
  shows "main ROOT now ks c w =
           (Inr (),
            w\<lparr>stdout := stdout w @ [MsgModelName (model_name_of ks (template c)),
                        MsgCreated (generate_dir ROOT c @ [model_name_of ks (template c) @ ''.yaml''])],
              dirs := (if generate_dir ROOT c \<in> dirs w then dirs w
                       else dirs w \<union> set (path_prefixes (generate_dir ROOT c))),
              files := (files w)
                 (generate_dir ROOT c @ [model_name_of ks (template c) @ ''.yaml''] \<mapsto>
                    \<lparr>header_comment =
                       \<lparr>h_time = now, h_user = user c,
                        h_template = model_name_of ks (template c),
                        h_model_name = model_name_of ks (template c),
                        h_downsample = d, h_convolution = v, h_fusion = f,
                        h_head = OStr h\<rparr>,
                      document = (template c)\<lparr>name := model_name_of ks (template c)\<rparr>\<rparr>)\<rparr>)"
proof -
  let ?mn = "model_name_of ks (template c)"
  let ?c = "c\<lparr>template := (template c)\<lparr>name := ?mn\<rparr>\<rparr>"
  let ?dir = "generate_dir ROOT c"
  have dir_eq: "generate_dir ROOT ?c = ?dir" by (simp add: generate_dir_def)
  have attr_eq: "template_attr (t\<lparr>name := n\<rparr>) k = template_attr t k" for t n k
    by (simp add: template_attr_def)
  have nf: "files w ?dir = None" using nofile self_in_path_prefixes by blast
  have nl: "\<not> list_ex (\<lambda>q. files w q \<noteq> None) (path_prefixes ?dir)"
    using nofile by (simp add: list_ex_iff)
  have hdr: "make_header now ?c ?mn =
      Inr \<lparr>h_time = now, h_user = user c, h_template = ?mn, h_model_name = ?mn,
           h_downsample = d, h_convolution = v, h_fusion = f, h_head = OStr h\<rparr>"
    by (simp add: make_header_def attr_eq ds cv fu hd)
  show ?thesis
  proof (cases "?dir \<in> dirs w")
    case True
    then show ?thesis
      using nodir
      by (simp add: main_def Let_def hd hd_ok att att_ok write_model_def dir_eq hdr
          path_exists_def print_def open_write_def oc_to_dict_def)
  next
    case False
    then show ?thesis
      using nodir nf nl snoc_notin_path_prefixes[of ?dir] self_in_path_prefixes[of ?dir]
      by (simp add: main_def Let_def hd hd_ok att att_ok write_model_def dir_eq hdr
          path_exists_def print_def open_write_def makedirs_def oc_to_dict_def)
  qed
qed

lemma scenario_attr:
  "template_attr (scenario_template nm frm hv att) ''ATTENTION'' = Inr att"
  "template_attr (scenario_template nm frm hv att) ''HEAD'' = Inr hv"
  "template_attr (scenario_template nm frm hv att) ''DOWNSAMPLE'' = Inr (OStr ''ADown'')"
  "template_attr (scenario_template nm frm hv att) ''CONVOLUTION'' = Inr (OStr ''C3k2'')"
  "template_attr (scenario_template nm frm hv att) ''FUSION'' = Inr (OStr ''Concat'')"
  by (simp_all add: template_attr_def scenario_template_def)

lemma scenario_name: "name (scenario_template nm frm hv att) = nm"
  by (simp add: scenario_template_def)






lemma write_model_files:
  "files (snd (write_model ROOT now mn c w1)) = files w1 \<or>
   (\<exists>p hc. files (snd (write_model ROOT now mn c w1)) =
       (files w1)(p \<mapsto> \<lparr>header_comment = hc, document = (template c)\<lparr>name := mn\<rparr>\<rparr>))"
  by (auto simp: write_model_def Let_def makedirs_def open_write_def print_def oc_to_dict_def
           split: sum.splits if_splits)

lemma main_files:
  "files (snd (main ROOT now ks c w)) = files w \<or>
   (\<exists>p hc. files (snd (main ROOT now ks c w)) =
       (files w)(p \<mapsto> \<lparr>header_comment = hc,
                         document = (template c)\<lparr>name := model_name_of ks (template c)\<rparr>\<rparr>))"
  using write_model_files[of ROOT now "model_name_of ks (template c)" c
           "print (MsgModelName (model_name_of ks (template c))) w"]
  by (auto simp: main_def Let_def print_def split: sum.splits)

text \<open>The concrete request is accepted; this is the world \<open>main\<close> leaves.\<close>

lemma scenario_main_accepted:
  "main [''repo''] ''2025-08-04 12:00:00''
     [''ATTENTION'', ''HEAD'', ''FUSION'', ''CONVOLUTION'', ''DOWNSAMPLE'']
     (scenario_cfg (scenario_template ''yolo11-attn'' (PInt 12) (OStr ''AFPNHead'') (OStr ''EIEStem'')))
     empty_world
   = (Inr (),
      \<lparr>stdout = [MsgModelName ''yolo11-attn-EIEStem-AFPNHead-Concat-C3k2-ADown'',
                 MsgCreated [''repo'', ''configs'', ''model'', ''benderick'', ''generate'', ''t23458'',
                             ''yolo11-attn-EIEStem-AFPNHead-Concat-C3k2-ADown.yaml'']],
       dirs = set (path_prefixes [''repo'', ''configs'', ''model'', ''benderick'', ''generate'', ''t23458'']),
       files = [[''repo'', ''configs'', ''model'', ''benderick'', ''generate'', ''t23458'',
                 ''yolo11-attn-EIEStem-AFPNHead-Concat-C3k2-ADown.yaml''] \<mapsto>
                \<lparr>header_comment =
                   \<lparr>h_time = ''2025-08-04 12:00:00'', h_user = ''benderick'',
                    h_template = ''yolo11-attn-EIEStem-AFPNHead-Concat-C3k2-ADown'',
                    h_model_name = ''yolo11-attn-EIEStem-AFPNHead-Concat-C3k2-ADown'',
                    h_downsample = OStr ''ADown'', h_convolution = OStr ''C3k2'',
                    h_fusion = OStr ''Concat'', h_head = OStr ''AFPNHead''\<rparr>,
                  document =
                    (scenario_template ''yolo11-attn'' (PInt 12) (OStr ''AFPNHead'') (OStr ''EIEStem''))
                    \<lparr>name := ''yolo11-attn-EIEStem-AFPNHead-Concat-C3k2-ADown''\<rparr>\<rparr>]\<rparr>)"
proof -
  let ?t = "scenario_template ''yolo11-attn'' (PInt 12) (OStr ''AFPNHead'') (OStr ''EIEStem'')"
  let ?c = "scenario_cfg ?t"
  let ?ks = "[''ATTENTION'', ''HEAD'', ''FUSION'', ''CONVOLUTION'', ''DOWNSAMPLE'']"
  have mn: "model_name_of ?ks ?t = ''yolo11-attn-EIEStem-AFPNHead-Concat-C3k2-ADown''"
    by (simp add: model_name_of_def template_get_def scenario_template_def)
  have dir: "generate_dir [''repo''] ?c =
               [''repo'', ''configs'', ''model'', ''benderick'', ''generate'', ''t23458'']"
    by (simp add: generate_dir_def scenario_cfg_def)
  have tpl: "template ?c = ?t" and usr: "user ?c = ''benderick''"
    by (simp_all add: scenario_cfg_def)
  have "main [''repo''] ''2025-08-04 12:00:00'' ?ks ?c empty_world =
     (Inr (),
      empty_world\<lparr>stdout := stdout empty_world @ [MsgModelName (model_name_of ?ks (template ?c)),
                        MsgCreated (generate_dir [''repo''] ?c @ [model_name_of ?ks (template ?c) @ ''.yaml''])],
              dirs := (if generate_dir [''repo''] ?c \<in> dirs empty_world then dirs empty_world
                       else dirs empty_world \<union> set (path_prefixes (generate_dir [''repo''] ?c))),
              files := (files empty_world)
                 (generate_dir [''repo''] ?c @ [model_name_of ?ks (template ?c) @ ''.yaml''] \<mapsto>
                    \<lparr>header_comment =
                       \<lparr>h_time = ''2025-08-04 12:00:00'', h_user = user ?c,
                        h_template = model_name_of ?ks (template ?c),
                        h_model_name = model_name_of ?ks (template ?c),
                        h_downsample = OStr ''ADown'', h_convolution = OStr ''C3k2'',
                        h_fusion = OStr ''Concat'', h_head = OStr ''AFPNHead''\<rparr>,
                      document = (template ?c)\<lparr>name := model_name_of ?ks (template ?c)\<rparr>\<rparr>)\<rparr>)"
    by (rule main_accepted[where a = "OStr ''EIEStem''"])
       (simp_all add: tpl scenario_attr scenario_name empty_world_def)
  then show ?thesis
    by (simp add: tpl usr mn dir empty_world_def)
qed

text \<open>Option values along the declared keys.\<close>

lemma map_of_keys_values:
  "distinct (map fst xs) \<Longrightarrow> map (\<lambda>k. the (map_of xs k)) (map fst xs) = map snd xs"
proof (induction xs)
  case Nil
  then show ?case by simp
next
  case (Cons x xs)
  obtain k v where x: "x = (k, v)" by (cases x)
  from Cons.prems have k: "k \<notin> fst ` set xs" and d: "distinct (map fst xs)" by (auto simp: x)
  have "map (\<lambda>k'. the (map_of (x # xs) k')) (map fst xs) = map (\<lambda>k'. the (map_of xs k')) (map fst xs)"
    using k by (auto simp: x)
  with Cons.IH[OF d] show ?case by (simp add: x)
qed

lemma template_get_the:
  "k \<in> fst ` set (options t) \<Longrightarrow> template_get t k = the (map_of (options t) k)"
  by (auto simp: template_get_def map_of_eq_None_iff split: option.splits)

section \<open>The reference rewrite of \<open>process_model\<close>\<close>

text \<open>
  Claim C2. When the attention field is set and every head layer has a first element,
  \<open>process_model\<close> returns, keeps the number of head layers, and rewrites the \<open>from\<close> of each
  head layer as follows: a single integer of at least 10 becomes its successor, a single
  integer below 10 (every negative one included) stays; in a list-valued \<open>from\<close> the same
  rule holds element by element, and the list keeps its length. The rest of the layer is
  untouched.
\<close>

theorem process_model_shifts_head_refs:
  assumes att: "template_attr (template c) ''ATTENTION'' = Inr a" "truthy a"
      and ne: "\<forall>l \<in> set (head (template c)). l \<noteq> []"
  shows "\<exists>c'. process_model c = Inr c'
           \<and> length (head (template c')) = length (head (template c))
           \<and> (\<forall>i < length (head (template c)). \<forall>rest.
                 (\<forall>n. head (template c) ! i = PInt n # rest \<longrightarrow>
                    (n \<ge> 10 \<longrightarrow> head (template c') ! i = PInt (n + 1) # rest) \<and>
                    (n < 10 \<longrightarrow> head (template c') ! i = PInt n # rest))
               \<and> (\<forall>xs. head (template c) ! i = PList xs # rest \<longrightarrow>
                    (\<exists>ys. head (template c') ! i = PList ys # rest \<and> length ys = length xs
                       \<and> (\<forall>j < length xs. \<forall>v.
                             (xs ! j = PInt v \<and> v \<ge> 10 \<longrightarrow> ys ! j = PInt (v + 1)) \<and>
                             (xs ! j = PInt v \<and> v < 10 \<longrightarrow> ys ! j = PInt v)))))"
proof -
  let ?h = "head (template c)"
  let ?h' = "map (\<lambda>l. rewrite_from (hd l) # tl l) ?h"
  let ?c' = "c\<lparr>template := (template c)
               \<lparr>backbone := backbone (template c) @ [attention_layer a], head := ?h'\<rparr>\<rparr>"
  have pm: "process_model c = Inr ?c'"
    using att ne by (rule process_model_ok)
  have hd': "head (template ?c') = ?h'" by simp
  have ints: "?h' ! i = PInt (if n \<ge> 10 then n + 1 else n) # rest"
    if "i < length ?h" "?h ! i = PInt n # rest" for i n rest
    using that by simp
  have lists: "?h' ! i = PList (map shift_elem xs) # rest"
    if "i < length ?h" "?h ! i = PList xs # rest" for i xs rest
    using that by (simp add: shift_elems_map)
  have body: "\<forall>i < length ?h. \<forall>rest.
                 (\<forall>n. ?h ! i = PInt n # rest \<longrightarrow>
                    (n \<ge> 10 \<longrightarrow> ?h' ! i = PInt (n + 1) # rest) \<and>
                    (n < 10 \<longrightarrow> ?h' ! i = PInt n # rest))
               \<and> (\<forall>xs. ?h ! i = PList xs # rest \<longrightarrow>
                    (\<exists>ys. ?h' ! i = PList ys # rest \<and> length ys = length xs
                       \<and> (\<forall>j < length xs. \<forall>v.
                             (xs ! j = PInt v \<and> v \<ge> 10 \<longrightarrow> ys ! j = PInt (v + 1)) \<and>
                             (xs ! j = PInt v \<and> v < 10 \<longrightarrow> ys ! j = PInt v))))"
  proof (intro allI impI)
    fix i rest assume i: "i < length ?h"
    show "(\<forall>n. ?h ! i = PInt n # rest \<longrightarrow>
                    (n \<ge> 10 \<longrightarrow> ?h' ! i = PInt (n + 1) # rest) \<and>
                    (n < 10 \<longrightarrow> ?h' ! i = PInt n # rest))
               \<and> (\<forall>xs. ?h ! i = PList xs # rest \<longrightarrow>
                    (\<exists>ys. ?h' ! i = PList ys # rest \<and> length ys = length xs
                       \<and> (\<forall>j < length xs. \<forall>v.
                             (xs ! j = PInt v \<and> v \<ge> 10 \<longrightarrow> ys ! j = PInt (v + 1)) \<and>
                             (xs ! j = PInt v \<and> v < 10 \<longrightarrow> ys ! j = PInt v))))"
    proof (rule conjI)
      show "\<forall>n. ?h ! i = PInt n # rest \<longrightarrow>
                    (n \<ge> 10 \<longrightarrow> ?h' ! i = PInt (n + 1) # rest) \<and>
                    (n < 10 \<longrightarrow> ?h' ! i = PInt n # rest)"
        using ints[OF i] by simp
    next
      show "\<forall>xs. ?h ! i = PList xs # rest \<longrightarrow>
                    (\<exists>ys. ?h' ! i = PList ys # rest \<and> length ys = length xs
                       \<and> (\<forall>j < length xs. \<forall>v.
                             (xs ! j = PInt v \<and> v \<ge> 10 \<longrightarrow> ys ! j = PInt (v + 1)) \<and>
                             (xs ! j = PInt v \<and> v < 10 \<longrightarrow> ys ! j = PInt v)))"
      proof (intro allI impI)
        fix xs assume x: "?h ! i = PList xs # rest"
        have "?h' ! i = PList (map shift_elem xs) # rest" by (rule lists[OF i x])
        then show "\<exists>ys. ?h' ! i = PList ys # rest \<and> length ys = length xs
                       \<and> (\<forall>j < length xs. \<forall>v.
                             (xs ! j = PInt v \<and> v \<ge> 10 \<longrightarrow> ys ! j = PInt (v + 1)) \<and>
                             (xs ! j = PInt v \<and> v < 10 \<longrightarrow> ys ! j = PInt v))"
          by (intro exI[of _ "map shift_elem xs"]) simp
      qed
    qed
  qed
  show ?thesis
    apply (rule exI[of _ ?c'])
    apply (simp only: pm hd' length_map simp_thms)
    apply (rule body)
    done
qed

text \<open>
  The theorem at a request whose head layer is \<open>[[-1, 12, 4], 1, "Detect", [256]]\<close>: the
  hypotheses hold there and the layer comes out as \<open>[[-1, 13, 4], 1, "Detect", [256]]\<close>.
\<close>

theorem process_model_shifts_head_refs_witness:
  "template_attr
     (template (scenario_cfg (scenario_template ''yolo11-attn''
                                (PList [PInt (- 1), PInt 12, PInt 4])
                                (OStr ''AFPNHead'') (OStr ''EIEStem''))))
     ''ATTENTION'' = Inr (OStr ''EIEStem'')
   \<and> truthy (OStr ''EIEStem'')
   \<and> [] \<notin> set (head (template (scenario_cfg (scenario_template ''yolo11-attn''
                                (PList [PInt (- 1), PInt 12, PInt 4])
                                (OStr ''AFPNHead'') (OStr ''EIEStem'')))))
   \<and> (\<exists>c'. process_model (scenario_cfg (scenario_template ''yolo11-attn''
                                (PList [PInt (- 1), PInt 12, PInt 4])
                                (OStr ''AFPNHead'') (OStr ''EIEStem''))) = Inr c'
          \<and> head (template c') =
              [[PList [PInt (- 1), PInt 13, PInt 4], PInt 1, PStr ''Detect'', PList [PInt 256]]])"
  using process_model_shifts_head_refs
          [of "scenario_cfg (scenario_template ''yolo11-attn''
                                (PList [PInt (- 1), PInt 12, PInt 4])
                                (OStr ''AFPNHead'') (OStr ''EIEStem''))"
              "OStr ''EIEStem''"]
  by (simp add: process_model_def scenario_cfg_def scenario_template_def template_attr_def
        attention_layer_def)

text \<open>
  Claim C3, as stated, fails: with a backbone of ten layers and the attention field set
  to \<open>EIEStem\<close>, the head layer with \<open>from = [-1, 8]\<close> comes out of \<open>process_model\<close> with
  \<open>from = [-1, 8]\<close>, which is not \<open>[-1, 9]\<close>.
\<close>

theorem list_from_minus1_8_counterexample:
  "process_model (scenario_cfg (scenario_template ''yolo11-attn'' (PList [PInt (- 1), PInt 8])
                                  (OStr ''AFPNHead'') (OStr ''EIEStem'')))
     = Inr (scenario_cfg
             ((scenario_template ''yolo11-attn'' (PList [PInt (- 1), PInt 8])
                 (OStr ''AFPNHead'') (OStr ''EIEStem''))
              \<lparr>backbone := scenario_backbone @ [[PInt (- 1), PInt 1, PStr ''EIEStem'', PList []]],
               head := [[PList [PInt (- 1), PInt 8], PInt 1, PStr ''Detect'', PList [PInt 256]]]\<rparr>))
   \<and> PList [PInt (- 1), PInt 8] \<noteq> PList [PInt (- 1), PInt 9]"
  by (simp add: process_model_def scenario_cfg_def scenario_template_def template_attr_def
        attention_layer_def)

text \<open>
  Claim C3, amended. When the attention field is set and every head layer has a first
  element, a head layer with \<open>from = [-1, 8]\<close> keeps \<open>from = [-1, 8]\<close>: both elements are
  below 10.
\<close>

theorem list_from_minus1_8_kept:
  assumes "template_attr (template c) ''ATTENTION'' = Inr a" and "truthy a"
      and "\<forall>l \<in> set (head (template c)). l \<noteq> []"
      and "i < length (head (template c))"
      and "head (template c) ! i = PList [PInt (- 1), PInt 8] # rest"
  shows "\<exists>c'. process_model c = Inr c'
           \<and> head (template c') ! i = PList [PInt (- 1), PInt 8] # rest"
  using assms by (simp add: process_model_ok)

theorem list_from_minus1_8_kept_witness:
  "template_attr
     (template (scenario_cfg (scenario_template ''yolo11-attn'' (PList [PInt (- 1), PInt 8])
                                (OStr ''AFPNHead'') (OStr ''EIEStem''))))
     ''ATTENTION'' = Inr (OStr ''EIEStem'')
   \<and> truthy (OStr ''EIEStem'')
   \<and> (\<exists>c'. process_model (scenario_cfg (scenario_template ''yolo11-attn''
                                (PList [PInt (- 1), PInt 8])
                                (OStr ''AFPNHead'') (OStr ''EIEStem''))) = Inr c'
          \<and> head (template c') ! 0 =
              [PList [PInt (- 1), PInt 8], PInt 1, PStr ''Detect'', PList [PInt 256]])"
  using list_from_minus1_8_kept
          [of "scenario_cfg (scenario_template ''yolo11-attn'' (PList [PInt (- 1), PInt 8])
                                  (OStr ''AFPNHead'') (OStr ''EIEStem''))"
              "OStr ''EIEStem''" 0 "[PInt 1, PStr ''Detect'', PList [PInt 256]]"]
  by (simp add: scenario_cfg_def scenario_attr) (simp add: scenario_template_def)

section \<open>Attention insertion and the pipeline\<close>

text \<open>
  Claim C1, as stated, fails: \<open>main\<close> never calls \<open>process_model\<close>. For the template with a
  backbone of ten layers, the head layer \<open>[12, 1, "Detect", [256]]\<close>, \<open>ATTENTION = EIEStem\<close>
  and a name that carries the attention marker, the request is accepted and the written
  document has the ten backbone layers of the template and the head layer unchanged.
\<close>

theorem pipeline_skips_attention_counterexample:
  "length scenario_backbone = 10
   \<and> fst (main [''repo''] ''2025-08-04 12:00:00''
        [''ATTENTION'', ''HEAD'', ''FUSION'', ''CONVOLUTION'', ''DOWNSAMPLE'']
        (scenario_cfg (scenario_template ''yolo11-attn'' (PInt 12) (OStr ''AFPNHead'') (OStr ''EIEStem'')))
        empty_world) = Inr ()
   \<and> map_option (\<lambda>f. (backbone (document f), head (document f)))
       (files (snd (main [''repo''] ''2025-08-04 12:00:00''
          [''ATTENTION'', ''HEAD'', ''FUSION'', ''CONVOLUTION'', ''DOWNSAMPLE'']
          (scenario_cfg (scenario_template ''yolo11-attn'' (PInt 12) (OStr ''AFPNHead'') (OStr ''EIEStem'')))
          empty_world))
        [''repo'', ''configs'', ''model'', ''benderick'', ''generate'', ''t23458'',
         ''yolo11-attn-EIEStem-AFPNHead-Concat-C3k2-ADown.yaml''])
     = Some (scenario_backbone, [[PInt 12, PInt 1, PStr ''Detect'', PList [PInt 256]]])"
  by (simp add: scenario_main_accepted) (simp add: scenario_template_def scenario_backbone_def)

text \<open>
  Claim C1, amended. For a template whose \<open>ATTENTION\<close> field is a non-empty string and whose
  head layers all have a first element, \<open>process_model\<close> appends the layer
  \<open>[-1, 1, ATTENTION, []]\<close> to the end of the backbone and increments every single head
  \<open>from\<close> of at least 10. The generation pipeline does not apply it: any file \<open>main\<close> writes
  carries the backbone and the head of the template as they were.
\<close>

theorem attention_insertion_in_process_model_only:
  assumes att: "template_attr (template c) ''ATTENTION'' = Inr (OStr s)" and s: "s \<noteq> []"
      and ne: "\<forall>l \<in> set (head (template c)). l \<noteq> []"
  shows "(\<exists>c'. process_model c = Inr c'
            \<and> backbone (template c') =
                backbone (template c) @ [[PInt (- 1), PInt 1, PStr s, PList []]]
            \<and> (\<forall>i < length (head (template c)). \<forall>n rest.
                  head (template c) ! i = PInt n # rest \<and> n \<ge> 10 \<longrightarrow>
                  head (template c') ! i = PInt (n + 1) # rest))
       \<and> (\<forall>p f. files (snd (main ROOT now ks c w)) p = Some f \<and> files w p \<noteq> Some f \<longrightarrow>
                backbone (document f) = backbone (template c)
              \<and> head (document f) = head (template c))"
proof (rule conjI)
  have t: "truthy (OStr s)" using s by simp
  show "\<exists>c'. process_model c = Inr c'
            \<and> backbone (template c') =
                backbone (template c) @ [[PInt (- 1), PInt 1, PStr s, PList []]]
            \<and> (\<forall>i < length (head (template c)). \<forall>n rest.
                  head (template c) ! i = PInt n # rest \<and> n \<ge> 10 \<longrightarrow>
                  head (template c') ! i = PInt (n + 1) # rest)"
    by (simp add: process_model_ok[OF att t ne] attention_layer_def)
next
  show "\<forall>p f. files (snd (main ROOT now ks c w)) p = Some f \<and> files w p \<noteq> Some f \<longrightarrow>
                backbone (document f) = backbone (template c)
              \<and> head (document f) = head (template c)"
  proof (intro allI impI)
    fix p f
    assume a: "files (snd (main ROOT now ks c w)) p = Some f \<and> files w p \<noteq> Some f"
    from main_files[of ROOT now ks c w]
    obtain q hc where
      "files (snd (main ROOT now ks c w)) =
         (files w)(q \<mapsto> \<lparr>header_comment = hc,
                           document = (template c)\<lparr>name := model_name_of ks (template c)\<rparr>\<rparr>)"
      using a by auto
    with a have "f = \<lparr>header_comment = hc,
                      document = (template c)\<lparr>name := model_name_of ks (template c)\<rparr>\<rparr>"
      by (auto split: if_splits)
    then show "backbone (document f) = backbone (template c)
              \<and> head (document f) = head (template c)"
      by simp
  qed
qed

text \<open>
  At the concrete template: \<open>process_model\<close> gives the backbone an eleventh entry
  \<open>[-1, 1, "EIEStem", []]\<close> and turns the head entry into \<open>[13, 1, "Detect", [256]]\<close>,
  while the file \<open>main\<close> writes has the ten backbone layers and the head entry
  \<open>[12, 1, "Detect", [256]]\<close>.
\<close>

theorem attention_insertion_in_process_model_only_witness:
  "template_attr (template (scenario_cfg (scenario_template ''yolo11-attn'' (PInt 12)
                                            (OStr ''AFPNHead'') (OStr ''EIEStem'')))) ''ATTENTION''
     = Inr (OStr ''EIEStem'')
   \<and> ''EIEStem'' \<noteq> []
   \<and> [] \<notin> set (head (template (scenario_cfg (scenario_template ''yolo11-attn'' (PInt 12)
                                            (OStr ''AFPNHead'') (OStr ''EIEStem'')))))
   \<and> process_model (scenario_cfg (scenario_template ''yolo11-attn'' (PInt 12)
                                     (OStr ''AFPNHead'') (OStr ''EIEStem'')))
     = Inr (scenario_cfg
             ((scenario_template ''yolo11-attn'' (PInt 12) (OStr ''AFPNHead'') (OStr ''EIEStem''))
              \<lparr>backbone := scenario_backbone @ [[PInt (- 1), PInt 1, PStr ''EIEStem'', PList []]],
               head := [[PInt 13, PInt 1, PStr ''Detect'', PList [PInt 256]]]\<rparr>))
   \<and> (\<exists>f. files (snd (main [''repo''] ''2025-08-04 12:00:00''
          [''ATTENTION'', ''HEAD'', ''FUSION'', ''CONVOLUTION'', ''DOWNSAMPLE'']
          (scenario_cfg (scenario_template ''yolo11-attn'' (PInt 12) (OStr ''AFPNHead'') (OStr ''EIEStem'')))
          empty_world))
        [''repo'', ''configs'', ''model'', ''benderick'', ''generate'', ''t23458'',
         ''yolo11-attn-EIEStem-AFPNHead-Concat-C3k2-ADown.yaml''] = Some f
        \<and> files empty_world
        [''repo'', ''configs'', ''model'', ''benderick'', ''generate'', ''t23458'',
         ''yolo11-attn-EIEStem-AFPNHead-Concat-C3k2-ADown.yaml''] \<noteq> Some f
        \<and> backbone (document f) = scenario_backbone
        \<and> head (document f) = [[PInt 12, PInt 1, PStr ''Detect'', PList [PInt 256]]])"
proof -
  let ?t = "scenario_template ''yolo11-attn'' (PInt 12) (OStr ''AFPNHead'') (OStr ''EIEStem'')"
  let ?c = "scenario_cfg ?t"
  let ?ks = "[''ATTENTION'', ''HEAD'', ''FUSION'', ''CONVOLUTION'', ''DOWNSAMPLE'']"
  let ?P = "[''repo'', ''configs'', ''model'', ''benderick'', ''generate'', ''t23458'',
         ''yolo11-attn-EIEStem-AFPNHead-Concat-C3k2-ADown.yaml'']"
  have att: "template_attr (template ?c) ''ATTENTION'' = Inr (OStr ''EIEStem'')"
    by (simp add: scenario_cfg_def scenario_attr)
  have s: "''EIEStem'' \<noteq> []" by simp
  have ne': "[] \<notin> set (head (template ?c))"
    by (simp add: scenario_cfg_def scenario_template_def)
  then have ne: "\<forall>l \<in> set (head (template ?c)). l \<noteq> []" by blast
  note t = attention_insertion_in_process_model_only
             [OF att s ne, of "[''repo'']" "''2025-08-04 12:00:00''" ?ks empty_world]
  have pm: "process_model ?c
     = Inr (scenario_cfg (?t\<lparr>backbone := scenario_backbone @ [[PInt (- 1), PInt 1, PStr ''EIEStem'', PList []]],
               head := [[PInt 13, PInt 1, PStr ''Detect'', PList [PInt 256]]]\<rparr>))"
    by (simp add: process_model_def scenario_cfg_def scenario_template_def template_attr_def
        attention_layer_def)
  obtain f where f: "files (snd (main [''repo''] ''2025-08-04 12:00:00'' ?ks ?c empty_world)) ?P = Some f"
    by (simp add: scenario_main_accepted)
  have nf: "files empty_world ?P \<noteq> Some f"
    by (simp add: empty_world_def)
  from t f nf have "backbone (document f) = backbone (template ?c)
              \<and> head (document f) = head (template ?c)" by blast
  then have "backbone (document f) = scenario_backbone
        \<and> head (document f) = [[PInt 12, PInt 1, PStr ''Detect'', PList [PInt 256]]]"
    by (simp add: scenario_cfg_def scenario_template_def)
  with f nf att s ne' pm show ?thesis by blast
qed

section \<open>The consistency checks\<close>






text \<open>
  Claim C10. The multi-head check needs \<open>HEAD\<close> to be a string. When the key is absent the
  attribute access raises, when the value is \<open>None\<close> the membership test raises a
  \<open>TypeError\<close>; in both cases \<open>main\<close> ends with the error after printing the model name, and
  no warning is printed. The head-mismatch warning is the last line printed only when
  \<open>HEAD\<close> is a string.
\<close>

theorem head_not_string_raises:
  "(map_of (options (template c)) ''HEAD'' = None \<longrightarrow>
      main ROOT now ks c w =
        (Inl AttributeError, w\<lparr>stdout := stdout w @ [MsgModelName (model_name_of ks (template c))]\<rparr>))
 \<and> (map_of (options (template c)) ''HEAD'' = Some ONone \<longrightarrow>
      main ROOT now ks c w =
        (Inl TypeError, w\<lparr>stdout := stdout w @ [MsgModelName (model_name_of ks (template c))]\<rparr>))
 \<and> (last (stdout (snd (main ROOT now ks c w))) = MsgHeadMismatch
      \<longrightarrow> (\<exists>h. map_of (options (template c)) ''HEAD'' = Some (OStr h)))"
proof (intro conjI impI)
  assume "map_of (options (template c)) ''HEAD'' = None"
  then show "main ROOT now ks c w =
        (Inl AttributeError, w\<lparr>stdout := stdout w @ [MsgModelName (model_name_of ks (template c))]\<rparr>)"
    by (simp add: main_def Let_def template_attr_def print_def)
next
  assume "map_of (options (template c)) ''HEAD'' = Some ONone"
  then show "main ROOT now ks c w =
        (Inl TypeError, w\<lparr>stdout := stdout w @ [MsgModelName (model_name_of ks (template c))]\<rparr>)"
    by (simp add: main_def Let_def template_attr_def print_def)
next
  assume m: "last (stdout (snd (main ROOT now ks c w))) = MsgHeadMismatch"
  show "\<exists>h. map_of (options (template c)) ''HEAD'' = Some (OStr h)"
  proof (cases "map_of (options (template c)) ''HEAD''")
    case None
    with m show ?thesis by (simp add: main_def Let_def template_attr_def print_def)
  next
    case (Some v)
    show ?thesis
    proof (cases v)
      case ONone
      with Some m show ?thesis by (simp add: main_def Let_def template_attr_def print_def)
    next
      case (OStr h)
      with Some show ?thesis by simp
    qed
  qed
qed

theorem head_not_string_raises_witness:
  "map_of (options (template (scenario_cfg (scenario_template ''yolo11-4Head'' (PInt 12) ONone ONone))))
      ''HEAD'' = Some ONone
   \<and> main [''repo''] ''2025-08-04 12:00:00''
        [''ATTENTION'', ''HEAD'', ''FUSION'', ''CONVOLUTION'', ''DOWNSAMPLE'']
        (scenario_cfg (scenario_template ''yolo11-4Head'' (PInt 12) ONone ONone)) empty_world
      = (Inl TypeError, empty_world\<lparr>stdout := [MsgModelName ''yolo11-4Head-Concat-C3k2-ADown'']\<rparr>)
   \<and> map_of (options (template (scenario_cfg
        ((scenario_template ''yolo11-4Head'' (PInt 12) ONone ONone)\<lparr>options := []\<rparr>)))) ''HEAD'' = None
   \<and> main [''repo''] ''2025-08-04 12:00:00'' []
        (scenario_cfg ((scenario_template ''yolo11-4Head'' (PInt 12) ONone ONone)\<lparr>options := []\<rparr>))
        empty_world
      = (Inl AttributeError, empty_world\<lparr>stdout := [MsgModelName ''yolo11-4Head-'']\<rparr>)"
  using head_not_string_raises
    [of "scenario_cfg (scenario_template ''yolo11-4Head'' (PInt 12) ONone ONone)"
        "[''repo'']" "''2025-08-04 12:00:00''"
        "[''ATTENTION'', ''HEAD'', ''FUSION'', ''CONVOLUTION'', ''DOWNSAMPLE'']" empty_world]
    head_not_string_raises
    [of "scenario_cfg ((scenario_template ''yolo11-4Head'' (PInt 12) ONone ONone)\<lparr>options := []\<rparr>)"
        "[''repo'']" "''2025-08-04 12:00:00''" "[]" empty_world]
  by (simp add: scenario_cfg_def model_name_of_def template_get_def empty_world_def
        scenario_template_def)

section \<open>The composed name\<close>

text \<open>
  Claim C6, as stated, fails: the keys are collected in a set, so the order of the joined
  values is the order in which the set is visited. Visiting the five option keys of the
  concrete template in the reverse of their declared order is one such visit, and the
  composed name differs from the name in declared order.
\<close>

theorem declared_order_counterexample:
  "iterates [''ATTENTION'', ''HEAD'', ''FUSION'', ''CONVOLUTION'', ''DOWNSAMPLE'']
     (scenario_template ''yolo11-attn'' (PInt 12) (OStr ''AFPNHead'') (OStr ''EIEStem''))
   \<and> model_name_of [''ATTENTION'', ''HEAD'', ''FUSION'', ''CONVOLUTION'', ''DOWNSAMPLE'']
       (scenario_template ''yolo11-attn'' (PInt 12) (OStr ''AFPNHead'') (OStr ''EIEStem''))
     = ''yolo11-attn-EIEStem-AFPNHead-Concat-C3k2-ADown''
   \<and> spec_declared_order_name
       (scenario_template ''yolo11-attn'' (PInt 12) (OStr ''AFPNHead'') (OStr ''EIEStem''))
     = ''yolo11-attn-ADown-C3k2-Concat-AFPNHead-EIEStem''
   \<and> ''yolo11-attn-EIEStem-AFPNHead-Concat-C3k2-ADown''
       \<noteq> ''yolo11-attn-ADown-C3k2-Concat-AFPNHead-EIEStem''"
proof -
  have "iterates [''ATTENTION'', ''HEAD'', ''FUSION'', ''CONVOLUTION'', ''DOWNSAMPLE'']
     (scenario_template ''yolo11-attn'' (PInt 12) (OStr ''AFPNHead'') (OStr ''EIEStem''))"
    by (auto simp: iterates_def used_keys_def template_keys_def reserved_keys_def scenario_template_def)
  moreover have "model_name_of [''ATTENTION'', ''HEAD'', ''FUSION'', ''CONVOLUTION'', ''DOWNSAMPLE'']
       (scenario_template ''yolo11-attn'' (PInt 12) (OStr ''AFPNHead'') (OStr ''EIEStem''))
     = ''yolo11-attn-EIEStem-AFPNHead-Concat-C3k2-ADown''"
    by (simp add: model_name_of_def template_get_def scenario_template_def)
  moreover have "spec_declared_order_name
       (scenario_template ''yolo11-attn'' (PInt 12) (OStr ''AFPNHead'') (OStr ''EIEStem''))
     = ''yolo11-attn-ADown-C3k2-Concat-AFPNHead-EIEStem''"
    by (simp add: spec_declared_order_name_def scenario_template_def)
  moreover have "''yolo11-attn-EIEStem-AFPNHead-Concat-C3k2-ADown''
       \<noteq> ''yolo11-attn-ADown-C3k2-Concat-AFPNHead-EIEStem''" by simp
  ultimately show ?thesis by blast
qed

text \<open>
  Claim C6, amended. For a template with distinct option keys, none of them reserved, and
  a visit \<open>ks\<close> of the key set: the composed name is the template name, a hyphen, and the
  hyphen-joined non-empty option values in the order of the visit. These values are a
  rearrangement of the non-empty option values in declared order, and when the visit
  follows the declared order the name is the one the specification describes.
\<close>

theorem composed_name_follows_iteration_order:
  assumes it: "iterates ks t"
      and d: "distinct (map fst (options t))"
      and r: "set (map fst (options t)) \<inter> set reserved_keys = {}"
  shows "model_name_of ks t =
           name t @ ''-'' @
           join ''-'' (map (\<lambda>k. str_of (the (map_of (options t) k)))
                          (filter (\<lambda>k. truthy (the (map_of (options t) k))) ks))
       \<and> mset (map (\<lambda>k. str_of (the (map_of (options t) k)))
                  (filter (\<lambda>k. truthy (the (map_of (options t) k))) ks))
           = mset (map str_of (filter truthy (map snd (options t))))
       \<and> (ks = map fst (options t) \<longrightarrow> model_name_of ks t = spec_declared_order_name t)"
proof -
  let ?keys = "map fst (options t)"
  let ?val = "\<lambda>k. the (map_of (options t) k)"
  have ks_set: "set ks = set ?keys"
    using it r by (auto simp: iterates_def used_keys_def template_keys_def)
  have ks_dist: "distinct ks" using it by (simp add: iterates_def)
  have get: "template_get t k = ?val k" if "k \<in> set ks" for k
    using that ks_set by (simp add: template_get_the)
  have filt: "filter (\<lambda>key. truthy (template_get t key)) ks = filter (\<lambda>k. truthy (?val k)) ks"
    by (rule filter_cong) (simp_all add: get)
  have mp: "map (\<lambda>key. str_of (template_get t key)) (filter (\<lambda>k. truthy (?val k)) ks)
            = map (\<lambda>k. str_of (?val k)) (filter (\<lambda>k. truthy (?val k)) ks)"
    by (rule map_cong) (simp_all add: get)
  have eq1: "model_name_of ks t =
           name t @ ''-'' @ join ''-'' (map (\<lambda>k. str_of (?val k)) (filter (\<lambda>k. truthy (?val k)) ks))"
    by (simp add: model_name_of_def filt mp)
  have decl: "map (\<lambda>k. str_of (?val k)) (filter (\<lambda>k. truthy (?val k)) ?keys)
              = map str_of (filter truthy (map snd (options t)))"
  proof -
    have "map (\<lambda>k. str_of (?val k)) (filter (\<lambda>k. truthy (?val k)) ?keys)
          = map str_of (filter truthy (map ?val ?keys))"
      by (simp add: filter_map comp_def)
    also have "map ?val ?keys = map snd (options t)" using d by (rule map_of_keys_values)
    finally show ?thesis .
  qed
  have ms: "mset ks = mset ?keys"
    using set_eq_iff_mset_eq_distinct[OF ks_dist d] ks_set by blast
  have "mset (map (\<lambda>k. str_of (?val k)) (filter (\<lambda>k. truthy (?val k)) ks))
        = image_mset (\<lambda>k. str_of (?val k)) (filter_mset (\<lambda>k. truthy (?val k)) (mset ks))"
    by simp
  also have "\<dots> = mset (map (\<lambda>k. str_of (?val k)) (filter (\<lambda>k. truthy (?val k)) ?keys))"
    by (simp only: ms mset_map mset_filter)
  finally have eq2: "mset (map (\<lambda>k. str_of (?val k)) (filter (\<lambda>k. truthy (?val k)) ks))
           = mset (map str_of (filter truthy (map snd (options t))))"
    by (simp only: decl)
  have eq3: "model_name_of ks t = spec_declared_order_name t" if "ks = ?keys"
    using eq1 decl that by (simp add: spec_declared_order_name_def)
  from eq1 eq2 eq3 show ?thesis by blast
qed

theorem composed_name_follows_iteration_order_witness:
  "iterates [''ATTENTION'', ''HEAD'', ''FUSION'', ''CONVOLUTION'', ''DOWNSAMPLE'']
     (scenario_template ''yolo11-attn'' (PInt 12) (OStr ''AFPNHead'') (OStr ''EIEStem''))
   \<and> distinct (map fst (options
        (scenario_template ''yolo11-attn'' (PInt 12) (OStr ''AFPNHead'') (OStr ''EIEStem''))))
   \<and> set (map fst (options
        (scenario_template ''yolo11-attn'' (PInt 12) (OStr ''AFPNHead'') (OStr ''EIEStem''))))
       \<inter> set reserved_keys = {}
   \<and> model_name_of [''ATTENTION'', ''HEAD'', ''FUSION'', ''CONVOLUTION'', ''DOWNSAMPLE'']
       (scenario_template ''yolo11-attn'' (PInt 12) (OStr ''AFPNHead'') (OStr ''EIEStem''))
     = ''yolo11-attn-EIEStem-AFPNHead-Concat-C3k2-ADown''"
  using composed_name_follows_iteration_order
    [of "[''ATTENTION'', ''HEAD'', ''FUSION'', ''CONVOLUTION'', ''DOWNSAMPLE'']"
        "scenario_template ''yolo11-attn'' (PInt 12) (OStr ''AFPNHead'') (OStr ''EIEStem'')"]
  by (auto simp: iterates_def used_keys_def template_keys_def reserved_keys_def
        scenario_template_def model_name_of_def template_get_def)

text \<open>
  Claim C9. When every option field is empty (\<open>None\<close> or the empty string) or absent, the
  composed name is the template name followed by a hyphen, in whatever order the keys are
  visited: the hyphen after the template name is appended unconditionally.
\<close>

theorem empty_options_trailing_hyphen:
  assumes "\<forall>kv \<in> set (options t). \<not> truthy (snd kv)"
  shows "model_name_of ks t = name t @ ''-''"
proof -
  have "\<not> truthy (template_get t key)" for key
  proof (cases "map_of (options t) key")
    case None
    then show ?thesis by (simp add: template_get_def)
  next
    case (Some v)
    then have "(key, v) \<in> set (options t)" by (rule map_of_SomeD)
    with assms have "\<not> truthy v" by fastforce
    with Some show ?thesis by (simp add: template_get_def)
  qed
  then have "filter (\<lambda>key. truthy (template_get t key)) ks = []" by simp
  then show ?thesis by (simp add: model_name_of_def)
qed

theorem empty_options_trailing_hyphen_witness:
  "list_all (\<lambda>kv. \<not> truthy (snd kv))
     (options \<lparr>name = ''yolo11'', nc = 80, scales = [], backbone = [], head = [],
               options = [(''HEAD'', ONone), (''ATTENTION'', OStr '''')]\<rparr>)
   \<and> model_name_of [''ATTENTION'', ''HEAD'']
        \<lparr>name = ''yolo11'', nc = 80, scales = [], backbone = [], head = [],
         options = [(''HEAD'', ONone), (''ATTENTION'', OStr '''')]\<rparr> = ''yolo11-''"
  using empty_options_trailing_hyphen
    [of "\<lparr>name = ''yolo11'', nc = 80, scales = [], backbone = [], head = [],
         options = [(''HEAD'', ONone), (''ATTENTION'', OStr '''')]\<rparr>" "[''ATTENTION'', ''HEAD'']"]
  by simp

section \<open>Inline and block lists\<close>




section \<open>The output path\<close>



end
